theory Spec2Isabelle
  imports Main
begin

section \<open>Syntax tree, tokens and text edits\<close>

text \<open>
  The rule \<open>no-done-callback\<close> works on a syntax tree built by the parser and on the
  token stream of the source text. A \<open>range\<close> is the pair of offsets
  \<open>[start, end)\<close> of a node or of a token in the source text.
\<close>

type_synonym range = "nat \<times> nat"

text \<open>
  The node shapes the rule consults (\<open>AST_NODE_TYPES\<close>): identifiers, the two function
  literals, block statements, call expressions and tagged templates. Member expressions
  and object patterns appear in the call sites of the scenarios;
  \<open>OtherNode\<close> stands for every other kind of node, with its kind as a string.
\<close>

datatype node =
    Identifier (node_range: range) (name: string)
  | ObjectPattern (node_range: range)
  | MemberExpression (node_range: range) (object: node) (property: node)
  | TaggedTemplateExpression (node_range: range) (tag: node)
  | CallExpression (node_range: range) (callee: node) (arguments: "node list")
  | BlockStatement (node_range: range)
  | FunctionExpression (node_range: range) (params: "node list") (body: node) (async: bool)
  | ArrowFunctionExpression (node_range: range) (params: "node list") (body: node) (async: bool)
  | OtherNode (node_range: range) (kind: string)

record token =
  tok_value :: string
  tok_range :: range

datatype nodeOrToken = N node | T token

fun rangeOf :: "nodeOrToken \<Rightarrow> range" where
  "rangeOf (N n) = node_range n"
| "rangeOf (T t) = tok_range t"

text \<open>
  The token navigation of the host (\<open>context.getSourceCode()\<close>) is a parameter of the
  rule: four functions that return a token or nothing (\<open>null\<close>).
\<close>

record sourceCode =
  getFirstToken :: "node \<Rightarrow> token option"
  getLastToken :: "node \<Rightarrow> token option"
  getTokenBefore :: "nodeOrToken \<Rightarrow> token option"
  getTokenAfter :: "nodeOrToken \<Rightarrow> token option"

record ruleContext =
  getSourceCode :: sourceCode
  getFilename :: string

text \<open>
  The helpers imported from \<open>./utils\<close> that classify a call are parameters as well:
  \<open>getNodeName\<close> gives the dotted name of a callee or nothing, and
  \<open>parseJestFnCall\<close> gives the kind of jest function a call is, or nothing; the rule
  reads only the \<open>type\<close> of its result.
\<close>

datatype jestFnType = Hook | Test | Describe | Expect | Jest | Unknown

record utils =
  getNodeName :: "node \<Rightarrow> string option"
  parseJestFnCall :: "node \<Rightarrow> ruleContext \<Rightarrow> jestFnType option"

text \<open>
  Modelled from the spec: the helper \<open>isFunction\<close> of \<open>./utils\<close> is not part of the
  source at hand; the spec describes it as the predicate identifying function-literal
  nodes, arrow or ordinary.
\<close>

fun isFunction :: "node \<Rightarrow> bool" where
  "isFunction (FunctionExpression r ps b a) = True"
| "isFunction (ArrowFunctionExpression r ps b a) = True"
| "isFunction other = False"

text \<open>
  Modelled from the spec: the text-edit primitives of the host's fixer (replace a node's
  text, insert text immediately before or after a position, remove a text range). Each
  one yields an edit: the range of source text it replaces and the replacement text;
  an insertion replaces the empty range at its position.
\<close>

record ruleFix =
  fix_range :: range
  fix_text :: string

definition replaceText :: "nodeOrToken \<Rightarrow> string \<Rightarrow> ruleFix" where
  "replaceText nodeOrToken text = \<lparr>fix_range = rangeOf nodeOrToken, fix_text = text\<rparr>"

definition removeRange :: "range \<Rightarrow> ruleFix" where
  "removeRange r = \<lparr>fix_range = r, fix_text = ''''\<rparr>"

definition insertTextBefore :: "nodeOrToken \<Rightarrow> string \<Rightarrow> ruleFix" where
  "insertTextBefore nodeOrToken text =
     \<lparr>fix_range = (fst (rangeOf nodeOrToken), fst (rangeOf nodeOrToken)), fix_text = text\<rparr>"

definition insertTextAfter :: "nodeOrToken \<Rightarrow> string \<Rightarrow> ruleFix" where
  "insertTextAfter nodeOrToken text =
     \<lparr>fix_range = (snd (rangeOf nodeOrToken), snd (rangeOf nodeOrToken)), fix_text = text\<rparr>"

section \<open>Reports\<close>

datatype messageId = noDoneCallback | suggestWrappingInPromise | useAwaitInsteadOfCallback

text \<open>
  The \<open>fix\<close> function of a suggestion either throws or returns its list of edits; the
  suggestion carries that outcome.
\<close>

datatype error = Error string | TypeError

record suggestion =
  s_messageId :: messageId
  s_data :: "(string \<times> string) list"
  s_fix :: "error + ruleFix list"

record reportDescriptor =
  r_node :: node
  r_messageId :: messageId
  r_suggest :: "suggestion list"

section \<open>The rule\<close>

text \<open>\<open>String.prototype.endsWith\<close>, and reading a list at an index that may be out of range.\<close>

definition endsWith :: "string \<Rightarrow> string \<Rightarrow> bool" where
  "endsWith s searchString =
     (length searchString \<le> length s \<and> drop (length s - length searchString) s = searchString)"

definition at_index :: "'a list \<Rightarrow> nat \<Rightarrow> 'a option" where
  "at_index xs i = (if i < length xs then Some (xs ! i) else None)"

definition findCallbackArg :: "utils \<Rightarrow> node \<Rightarrow> bool \<Rightarrow> ruleContext \<Rightarrow> node option" where
  "findCallbackArg U node isJestEach context =
     (if isJestEach then at_index (arguments node) 1
      else
        let jestFnCall = parseJestFnCall U node context in
        if jestFnCall = Some Hook \<and> length (arguments node) \<ge> 1 then at_index (arguments node) 0
        else if jestFnCall = Some Test \<and> length (arguments node) \<ge> 2 then at_index (arguments node) 1
        else None)"

text \<open>
  The \<open>fix\<close> function of the suggestion. It closes over the callback and its
  callback parameter \<open>argument\<close>. The token after the last parameter is replaced by
  the token after it when it is a comma (\<open>skipComma\<close>). Destructuring the first
  parameter of an empty parameter list gives \<open>undefined\<close>, on which the token
  navigation raises a \<open>TypeError\<close>.
\<close>

definition unexpectedNull :: "ruleContext \<Rightarrow> error" where
  "unexpectedNull context =
     Error (''Unexpected null when attempting to fix '' @ getFilename context @
            '' - please file a github issue at https://github.com/jest-community/eslint-plugin-jest'')"

definition isBlockStatement :: "node \<Rightarrow> bool" where
  "isBlockStatement n = (case n of BlockStatement r \<Rightarrow> True | other \<Rightarrow> False)"

definition skipComma :: "sourceCode \<Rightarrow> token option \<Rightarrow> token option" where
  "skipComma sc tokenAfterLastParam =
     (case tokenAfterLastParam of
        None \<Rightarrow> None
      | Some t \<Rightarrow> if tok_value t = '','' then getTokenAfter sc (T t) else Some t)"

definition fix_fn :: "ruleContext \<Rightarrow> node \<Rightarrow> node \<Rightarrow> error + ruleFix list" where
  "fix_fn context callback argument =
     (case params callback of
        [] \<Rightarrow> Inl TypeError
      | firstParam # rest \<Rightarrow>
         (let sc = getSourceCode context;
              firstBodyToken = getFirstToken sc (body callback);
              lastBodyToken = getLastToken sc (body callback);
              lastParam = last (params callback);
              tokenBeforeFirstParam = getTokenBefore sc (N firstParam);
              tokenAfterLastParam = skipComma sc (getTokenAfter sc (N lastParam))
          in
          case (firstBodyToken, lastBodyToken, tokenBeforeFirstParam, tokenAfterLastParam) of
            (Some fb, Some lb, Some tb, Some ta) \<Rightarrow>
             (let argumentFix =
                    (if tok_value tb = ''('' \<and> tok_value ta = '')''
                     then removeRange (snd (tok_range tb), fst (tok_range ta))
                     else replaceText (N firstParam) ''()'');
                  newCallback = name argument;
                  beforeReplacement = ''new Promise('' @ newCallback @ '' => '';
                  afterReplacement = '')'';
                  (beforeReplacement, afterReplacement, replaceBefore) =
                    (if isBlockStatement (body callback)
                     then (''return'' @ '' '' @ beforeReplacement @ ''{'', afterReplacement @ ''}'', False)
                     else (beforeReplacement, afterReplacement, True))
              in Inr [argumentFix,
                      if replaceBefore then insertTextBefore (T fb) beforeReplacement
                      else insertTextAfter (T fb) beforeReplacement,
                      insertTextAfter (T lb) afterReplacement])
          | other \<Rightarrow> Inl (unexpectedNull context)))"

text \<open>
  The listener for call expressions. It returns the reports it hands to
  \<open>context.report\<close>, in order: none or one. The listener is only ever called on call
  expressions.
\<close>

definition isJestEach_of :: "utils \<Rightarrow> node \<Rightarrow> bool" where
  "isJestEach_of U node =
     (case getNodeName U (callee node) of None \<Rightarrow> False | Some n \<Rightarrow> endsWith n ''.each'')"

definition isTaggedTemplate :: "node \<Rightarrow> bool" where
  "isTaggedTemplate n = (case n of TaggedTemplateExpression r t \<Rightarrow> True | other \<Rightarrow> False)"

definition isIdentifier :: "node \<Rightarrow> bool" where
  "isIdentifier n = (case n of Identifier r x \<Rightarrow> True | other \<Rightarrow> False)"

definition CallExpression_listener :: "utils \<Rightarrow> ruleContext \<Rightarrow> node \<Rightarrow> reportDescriptor list" where
  "CallExpression_listener U context node =
     (let isJestEach = isJestEach_of U node in
      if isJestEach \<and> \<not> isTaggedTemplate (callee node) then []
      else
        let callback = findCallbackArg U node isJestEach context;
            callbackArgIndex = (if isJestEach then 1 else 0 :: nat)
        in
        case callback of
          None \<Rightarrow> []
        | Some cb \<Rightarrow>
            if \<not> isFunction cb \<or> length (params cb) \<noteq> 1 + callbackArgIndex then []
            else
              let argument = params cb ! callbackArgIndex in
              if \<not> isIdentifier argument then
                [\<lparr>r_node = argument, r_messageId = noDoneCallback, r_suggest = []\<rparr>]
              else if async cb then
                [\<lparr>r_node = argument, r_messageId = useAwaitInsteadOfCallback, r_suggest = []\<rparr>]
              else
                [\<lparr>r_node = argument, r_messageId = noDoneCallback,
                  r_suggest = [\<lparr>s_messageId = suggestWrappingInPromise,
                                 s_data = [(''callback'', name argument)],
                                 s_fix = fix_fn context cb argument\<rparr>]\<rparr>])"

section \<open>The classification in the words of the specification\<close>

text \<open>
  The specification describes the listener as a classifier, a locator and a shape
  analyser. The classifier: a call whose resolved callee name ends in the
  parameterized-test marker is a parameterized test only in tagged-template form, and
  nothing in direct-call form; otherwise the generic classifier decides, where a hook
  needs at least one argument and a test at least two.
\<close>

datatype classification = NoneC | HookC | TestC | ParameterizedTest

definition spec_classify :: "utils \<Rightarrow> ruleContext \<Rightarrow> node \<Rightarrow> classification" where
  "spec_classify U context node =
     (if isJestEach_of U node then
        (if isTaggedTemplate (callee node) then ParameterizedTest else NoneC)
      else
        (case parseJestFnCall U node context of
           Some Hook \<Rightarrow> if 1 \<le> length (arguments node) then HookC else NoneC
         | Some Test \<Rightarrow> if 2 \<le> length (arguments node) then TestC else NoneC
         | other \<Rightarrow> NoneC))"

text \<open>
  The locator: argument 1 for a parameterized test, argument 0 for a hook, argument 1
  for a test, nothing otherwise. The offset of the callback slot among the callback's
  parameters is 1 for a parameterized test and 0 otherwise.
\<close>

fun spec_locate :: "classification \<Rightarrow> node \<Rightarrow> node option" where
  "spec_locate ParameterizedTest node = at_index (arguments node) 1"
| "spec_locate HookC node = at_index (arguments node) 0"
| "spec_locate TestC node = at_index (arguments node) 1"
| "spec_locate NoneC node = None"

fun spec_offset :: "classification \<Rightarrow> nat" where
  "spec_offset ParameterizedTest = 1"
| "spec_offset other = 0"

text \<open>
  A matching call with callback \<open>cb\<close>: the located argument exists, is a function
  literal and has exactly \<open>1 + offset\<close> parameters.
\<close>

definition matching :: "utils \<Rightarrow> ruleContext \<Rightarrow> node \<Rightarrow> node \<Rightarrow> bool" where
  "matching U context node cb =
     (spec_locate (spec_classify U context node) node = Some cb \<and> isFunction cb \<and>
      length (params cb) = 1 + spec_offset (spec_classify U context node))"

definition callbackSlot :: "utils \<Rightarrow> ruleContext \<Rightarrow> node \<Rightarrow> node \<Rightarrow> node" where
  "callbackSlot U context node cb = params cb ! spec_offset (spec_classify U context node)"

text \<open>
  The edits of the rewrite as the specification words them. The parameter edit replaces
  the text of the callback-slot parameter by \<open>()\<close>, unless that parameter is the only
  one and stands between its own parentheses (\<open>before\<close> is the token immediately
  before the first parameter, \<open>after\<close> the token immediately after the last one),
  where the span between the parentheses is removed. The body edits insert
  \<open>return new Promise(cb => {\<close> after the first body token and \<open>})\<close> after the
  last one for a block body, and \<open>new Promise(cb => \<close> before the first body token
  and \<open>)\<close> after the last one for an expression body.
\<close>

definition spec_param_edit :: "node \<Rightarrow> node \<Rightarrow> token \<Rightarrow> token \<Rightarrow> ruleFix" where
  "spec_param_edit cb slot before after =
     (if length (params cb) = 1 \<and> tok_value before = ''('' \<and> tok_value after = '')''
      then removeRange (snd (tok_range before), fst (tok_range after))
      else replaceText (N slot) ''()'')"

definition spec_body_edits :: "node \<Rightarrow> string \<Rightarrow> token \<Rightarrow> token \<Rightarrow> ruleFix list" where
  "spec_body_edits cb cbName firstBodyToken lastBodyToken =
     (if isBlockStatement (body cb)
      then [insertTextAfter (T firstBodyToken) (''return new Promise('' @ cbName @ '' => {''),
            insertTextAfter (T lastBodyToken) ''})'']
      else [insertTextBefore (T firstBodyToken) (''new Promise('' @ cbName @ '' => ''),
            insertTextAfter (T lastBodyToken) '')''])"

section \<open>A token store and the call sites of the scenarios\<close>

text \<open>
  Modelled from the spec: the token-navigation primitives of the host (first and last
  token of a node, token immediately before and after a given node or token) are not
  part of the source at hand. Over the tokens of the source text in order they are: the
  first and the last token lying inside the node's range, the last token ending at or
  before the start, and the first token starting at or after the end.
\<close>

definition inside :: "range \<Rightarrow> token \<Rightarrow> bool" where
  "inside r t = (fst r \<le> fst (tok_range t) \<and> snd (tok_range t) \<le> snd r)"

definition tokenStore :: "token list \<Rightarrow> sourceCode" where
  "tokenStore toks =
     \<lparr>getFirstToken = (\<lambda>n. find (inside (node_range n)) toks),
      getLastToken = (\<lambda>n. find (inside (node_range n)) (rev toks)),
      getTokenBefore = (\<lambda>x. find (\<lambda>t. snd (tok_range t) \<le> fst (rangeOf x)) (rev toks)),
      getTokenAfter = (\<lambda>x. find (\<lambda>t. snd (rangeOf x) \<le> fst (tok_range t)) toks)\<rparr>"

text \<open>
  What the rule may rely on from any token navigation: the token before a node or token
  ends at or before its start, and the token after it starts at or after its end.
\<close>

definition tokensInOrder :: "sourceCode \<Rightarrow> bool" where
  "tokensInOrder sc =
     (\<forall>x t. (getTokenBefore sc x = Some t \<longrightarrow> snd (tok_range t) \<le> fst (rangeOf x)) \<and>
            (getTokenAfter sc x = Some t \<longrightarrow> snd (rangeOf x) \<le> fst (tok_range t)))"

text \<open>
  Modelled from the spec: the name resolution of \<open>./utils\<close> (the dotted member path of
  a call target, or nothing) and a classifier of calls by the global jest names, for
  the call sites of the scenarios.
\<close>

fun getNodeName_model :: "node \<Rightarrow> string option" where
  "getNodeName_model (Identifier r x) = Some x"
| "getNodeName_model (TaggedTemplateExpression r t) = getNodeName_model t"
| "getNodeName_model (MemberExpression r ob pr) =
     (case (getNodeName_model ob, getNodeName_model pr) of
        (Some a, Some b) \<Rightarrow> Some (a @ ''.'' @ b)
      | other \<Rightarrow> None)"
| "getNodeName_model (CallExpression r c args) = getNodeName_model c"
| "getNodeName_model other = None"

definition parseJestFnCall_model :: "node \<Rightarrow> ruleContext \<Rightarrow> jestFnType option" where
  "parseJestFnCall_model node context =
     (case getNodeName_model (callee node) of
        None \<Rightarrow> None
      | Some n \<Rightarrow>
          let first = takeWhile (\<lambda>c. c \<noteq> CHR ''.'') n in
          if first \<in> set [''beforeAll'', ''beforeEach'', ''afterAll'', ''afterEach''] then Some Hook
          else if first \<in> set [''it'', ''test'', ''fit'', ''xit'', ''xtest''] then Some Test
          else if first \<in> set [''describe'', ''fdescribe'', ''xdescribe''] then Some Describe
          else None)"

definition utils_model :: utils where
  "utils_model = \<lparr>getNodeName = getNodeName_model, parseJestFnCall = parseJestFnCall_model\<rparr>"

definition tok :: "string \<Rightarrow> nat \<Rightarrow> nat \<Rightarrow> token" where
  "tok v a b = \<lparr>tok_value = v, tok_range = (a, b)\<rparr>"

definition context_of :: "token list \<Rightarrow> ruleContext" where
  "context_of toks = \<lparr>getSourceCode = tokenStore toks, getFilename = ''example.test.js''\<rparr>"

text \<open>\<^verbatim>\<open>beforeEach(function (done) { done(); })\<close>\<close>

definition hook_tokens :: "token list" where
  "hook_tokens =
     [tok ''beforeEach'' 0 10, tok ''('' 10 11, tok ''function'' 11 19, tok ''('' 20 21,
      tok ''done'' 21 25, tok '')'' 25 26, tok ''{'' 27 28, tok ''done'' 29 33, tok ''('' 33 34,
      tok '')'' 34 35, tok '';'' 35 36, tok ''}'' 37 38, tok '')'' 38 39]"

definition hook_callback :: node where
  "hook_callback =
     FunctionExpression (11, 38) [Identifier (21, 25) ''done''] (BlockStatement (27, 38)) False"

definition hook_call :: node where
  "hook_call = CallExpression (0, 39) (Identifier (0, 10) ''beforeEach'') [hook_callback]"

text \<open>\<^verbatim>\<open>it.each`t`(`x`, function (n, done) { done(); })\<close>\<close>

definition each_tokens :: "token list" where
  "each_tokens =
     [tok ''it'' 0 2, tok ''.'' 2 3, tok ''each'' 3 7, tok ''`t`'' 7 10, tok ''('' 10 11,
      tok ''`x`'' 11 14, tok '','' 14 15, tok ''function'' 16 24, tok ''('' 25 26, tok ''n'' 26 27,
      tok '','' 27 28, tok ''done'' 29 33, tok '')'' 33 34, tok ''{'' 35 36, tok ''done'' 37 41,
      tok ''('' 41 42, tok '')'' 42 43, tok '';'' 43 44, tok ''}'' 45 46, tok '')'' 46 47]"

definition each_callback :: node where
  "each_callback =
     FunctionExpression (16, 46) [Identifier (26, 27) ''n'', Identifier (29, 33) ''done'']
       (BlockStatement (35, 46)) False"

definition each_call :: node where
  "each_call =
     CallExpression (0, 47)
       (TaggedTemplateExpression (0, 10)
          (MemberExpression (0, 7) (Identifier (0, 2) ''it'') (Identifier (3, 7) ''each'')))
       [OtherNode (11, 14) ''TemplateLiteral'', each_callback]"

text \<open>\<^verbatim>\<open>test(`x`, (done,) => {})\<close>\<close>

definition comma_tokens :: "token list" where
  "comma_tokens =
     [tok ''test'' 0 4, tok ''('' 4 5, tok ''`x`'' 5 8, tok '','' 8 9, tok ''('' 10 11,
      tok ''done'' 11 15, tok '','' 15 16, tok '')'' 16 17, tok ''=>'' 18 20, tok ''{'' 21 22,
      tok ''}'' 22 23, tok '')'' 23 24]"

definition comma_callback :: node where
  "comma_callback =
     ArrowFunctionExpression (10, 23) [Identifier (11, 15) ''done''] (BlockStatement (21, 23)) False"

definition comma_call :: node where
  "comma_call =
     CallExpression (0, 24) (Identifier (0, 4) ''test'')
       [OtherNode (5, 8) ''TemplateLiteral'', comma_callback]"

text \<open>\<^verbatim>\<open>test(`x`, done => done())\<close>\<close>

definition arrow_tokens :: "token list" where
  "arrow_tokens =
     [tok ''test'' 0 4, tok ''('' 4 5, tok ''`x`'' 5 8, tok '','' 8 9, tok ''done'' 10 14,
      tok ''=>'' 15 17, tok ''done'' 18 22, tok ''('' 22 23, tok '')'' 23 24, tok '')'' 24 25]"

definition arrow_callback :: node where
  "arrow_callback =
     ArrowFunctionExpression (10, 24) [Identifier (10, 14) ''done'']
       (CallExpression (18, 24) (Identifier (18, 22) ''done'') []) False"

definition arrow_call :: node where
  "arrow_call =
     CallExpression (0, 25) (Identifier (0, 4) ''test'')
       [OtherNode (5, 8) ''TemplateLiteral'', arrow_callback]"

text \<open>\<^verbatim>\<open>beforeEach(async (done) => { done(); })\<close>\<close>

definition async_tokens :: "token list" where
  "async_tokens =
     [tok ''beforeEach'' 0 10, tok ''('' 10 11, tok ''async'' 11 16, tok ''('' 17 18,
      tok ''done'' 18 22, tok '')'' 22 23, tok ''=>'' 24 26, tok ''{'' 27 28, tok ''done'' 29 33,
      tok ''('' 33 34, tok '')'' 34 35, tok '';'' 35 36, tok ''}'' 37 38, tok '')'' 38 39]"

definition async_call :: node where
  "async_call =
     CallExpression (0, 39) (Identifier (0, 10) ''beforeEach'')
       [ArrowFunctionExpression (11, 38) [Identifier (18, 22) ''done''] (BlockStatement (27, 38)) True]"

text \<open>\<^verbatim>\<open>beforeEach(({ done }) => { done(); })\<close>\<close>

definition pattern_tokens :: "token list" where
  "pattern_tokens =
     [tok ''beforeEach'' 0 10, tok ''('' 10 11, tok ''('' 11 12, tok ''{'' 12 13, tok ''done'' 14 18,
      tok ''}'' 19 20, tok '')'' 20 21, tok ''=>'' 22 24, tok ''{'' 25 26, tok ''done'' 27 31,
      tok ''('' 31 32, tok '')'' 32 33, tok '';'' 33 34, tok ''}'' 35 36, tok '')'' 36 37]"

definition pattern_call :: node where
  "pattern_call =
     CallExpression (0, 37) (Identifier (0, 10) ''beforeEach'')
       [ArrowFunctionExpression (11, 36) [ObjectPattern (12, 20)] (BlockStatement (25, 36)) False]"

text \<open>\<^verbatim>\<open>it.each([1, 2])(`x`, (n, done) => done())\<close>\<close>

definition direct_tokens :: "token list" where
  "direct_tokens =
     [tok ''it'' 0 2, tok ''.'' 2 3, tok ''each'' 3 7, tok ''('' 7 8, tok ''['' 8 9, tok ''1'' 9 10,
      tok '','' 10 11, tok ''2'' 12 13, tok '']'' 13 14, tok '')'' 14 15, tok ''('' 15 16,
      tok ''`x`'' 16 19, tok '','' 19 20, tok ''('' 21 22, tok ''n'' 22 23, tok '','' 23 24,
      tok ''done'' 25 29, tok '')'' 29 30, tok ''=>'' 31 33, tok ''done'' 34 38, tok ''('' 38 39,
      tok '')'' 39 40, tok '')'' 40 41]"

definition direct_call :: node where
  "direct_call =
     CallExpression (0, 41)
       (CallExpression (0, 15)
          (MemberExpression (0, 7) (Identifier (0, 2) ''it'') (Identifier (3, 7) ''each''))
          [OtherNode (8, 14) ''ArrayExpression''])
       [OtherNode (16, 19) ''TemplateLiteral'',
        ArrowFunctionExpression (21, 40) [Identifier (22, 23) ''n'', Identifier (25, 29) ''done'']
          (CallExpression (34, 40) (Identifier (34, 38) ''done'') []) False]"

text \<open>\<^verbatim>\<open>test.each`t`(`x`, (n, done) => done())\<close>\<close>

definition table_tokens :: "token list" where
  "table_tokens =
     [tok ''test'' 0 4, tok ''.'' 4 5, tok ''each'' 5 9, tok ''`t`'' 9 12, tok ''('' 12 13,
      tok ''`x`'' 13 16, tok '','' 16 17, tok ''('' 18 19, tok ''n'' 19 20, tok '','' 20 21,
      tok ''done'' 22 26, tok '')'' 26 27, tok ''=>'' 28 30, tok ''done'' 31 35, tok ''('' 35 36,
      tok '')'' 36 37, tok '')'' 37 38]"

definition table_callback :: node where
  "table_callback =
     ArrowFunctionExpression (18, 37) [Identifier (19, 20) ''n'', Identifier (22, 26) ''done'']
       (CallExpression (31, 37) (Identifier (31, 35) ''done'') []) False"

definition table_call :: node where
  "table_call =
     CallExpression (0, 38)
       (TaggedTemplateExpression (0, 12)
          (MemberExpression (0, 9) (Identifier (0, 4) ''test'') (Identifier (5, 9) ''each'')))
       [OtherNode (13, 16) ''TemplateLiteral'', table_callback]"

text \<open>\<^verbatim>\<open>beforeEach(async ({ done }) => { done(); })\<close>\<close>

definition async_pattern_call :: node where
  "async_pattern_call =
     CallExpression (0, 43) (Identifier (0, 10) ''beforeEach'')
       [ArrowFunctionExpression (11, 42) [ObjectPattern (18, 26)] (BlockStatement (31, 42)) True]"

text \<open>
  The first six tokens of \<^verbatim>\<open>beforeEach(function (done) { done(); })\<close>: a token stream
  that ends before the body of the callback.
\<close>

definition truncated_tokens :: "token list" where
  "truncated_tokens =
     [tok ''beforeEach'' 0 10, tok ''('' 10 11, tok ''function'' 11 19, tok ''('' 20 21,
      tok ''done'' 21 25, tok '')'' 25 26]"

text \<open>
  \<^verbatim>\<open>beforeEach(function () {return new Promise(done => { done(); })})\<close>, the text of the
  first call site after its suggestion is applied.
\<close>

definition rewritten_callback :: node where
  "rewritten_callback = FunctionExpression (11, 64) [] (BlockStatement (23, 64)) False"

definition rewritten_call :: node where
  "rewritten_call = CallExpression (0, 65) (Identifier (0, 10) ''beforeEach'') [rewritten_callback]"

text \<open>
  \<^verbatim>\<open>it.each`t`(`x`, function () {return new Promise(done => { done(); })})\<close>, the text
  of the parameterized-test call site after its suggestion is applied.
\<close>

definition each_rewritten_callback :: node where
  "each_rewritten_callback = FunctionExpression (16, 69) [] (BlockStatement (28, 69)) False"

definition each_rewritten_call :: node where
  "each_rewritten_call =
     CallExpression (0, 70)
       (TaggedTemplateExpression (0, 10)
          (MemberExpression (0, 7) (Identifier (0, 2) ''it'') (Identifier (3, 7) ''each'')))
       [OtherNode (11, 14) ''TemplateLiteral'', each_rewritten_callback]"



definition each_source :: string where
  "each_source = ''it.each`t`(`x`, function (n, done) { done(); })''"

definition each_rewritten_source :: string where
  "each_rewritten_source =
     ''it.each`t`(`x`, function () {return new Promise(done => { done(); })})''"

section \<open>Edits and the text they touch\<close>

text \<open>
  An edit covers a range of source text when the range it replaces contains it; a list
  of edits leaves a node in place when each edit lies wholly before or wholly after the
  node's text.
\<close>

definition covers :: "ruleFix \<Rightarrow> range \<Rightarrow> bool" where
  "covers e r = (fst (fix_range e) \<le> fst r \<and> snd r \<le> snd (fix_range e))"

definition leaves_in_place :: "ruleFix list \<Rightarrow> node \<Rightarrow> bool" where
  "leaves_in_place edits n =
     list_all (\<lambda>e. snd (fix_range e) \<le> fst (node_range n) \<or> snd (node_range n) \<le> fst (fix_range e)) edits"

text \<open>
  Modelled from the spec: the host applies the edits of a plan to the source text. The
  edits of a plan are disjoint and in source order, so applying them from the last to
  the first keeps every offset valid.
\<close>

definition applyFix :: "ruleFix \<Rightarrow> string \<Rightarrow> string" where
  "applyFix e s = take (fst (fix_range e)) s @ fix_text e @ drop (snd (fix_range e)) s"

definition applyFixes :: "ruleFix list \<Rightarrow> string \<Rightarrow> string" where
  "applyFixes edits s = foldr applyFix edits s"

section \<open>The call site after the rewrite\<close>






section \<open>The listener against the classification of the specification\<close>

lemmas scenario_defs =
  utils_model_def parseJestFnCall_model_def context_of_def tok_def
  hook_call_def hook_callback_def each_call_def each_callback_def comma_call_def
  comma_callback_def arrow_call_def arrow_callback_def async_call_def pattern_call_def
  async_pattern_call_def direct_call_def table_call_def table_callback_def
  rewritten_call_def rewritten_callback_def each_rewritten_call_def
  each_rewritten_callback_def

lemmas rule_defs =
  matching_def callbackSlot_def spec_classify_def isJestEach_of_def isTaggedTemplate_def
  isIdentifier_def endsWith_def at_index_def

lemma located_eq:
  "\<not> (isJestEach_of U node \<and> \<not> isTaggedTemplate (callee node)) \<Longrightarrow>
   findCallbackArg U node (isJestEach_of U node) ctx =
   spec_locate (spec_classify U ctx node) node"
  by (auto simp: findCallbackArg_def spec_classify_def Let_def at_index_def
           split: option.splits jestFnType.splits)

lemma offset_eq:
  "\<not> (isJestEach_of U node \<and> \<not> isTaggedTemplate (callee node)) \<Longrightarrow>
   (if isJestEach_of U node then 1 else 0) = spec_offset (spec_classify U ctx node)"
  by (auto simp: spec_classify_def split: option.splits jestFnType.splits)

lemma skipped_none:
  "isJestEach_of U node \<and> \<not> isTaggedTemplate (callee node) \<Longrightarrow>
   spec_classify U ctx node = NoneC"
  by (simp add: spec_classify_def)

lemma listener_matching:
  assumes "matching U ctx node cb"
  shows "CallExpression_listener U ctx node =
     (let argument = callbackSlot U ctx node cb in
      if \<not> isIdentifier argument then
        [\<lparr>r_node = argument, r_messageId = noDoneCallback, r_suggest = []\<rparr>]
      else if async cb then
        [\<lparr>r_node = argument, r_messageId = useAwaitInsteadOfCallback, r_suggest = []\<rparr>]
      else
        [\<lparr>r_node = argument, r_messageId = noDoneCallback,
          r_suggest = [\<lparr>s_messageId = suggestWrappingInPromise,
                         s_data = [(''callback'', name argument)],
                         s_fix = fix_fn ctx cb argument\<rparr>]\<rparr>])"
proof -
  have ns: "\<not> (isJestEach_of U node \<and> \<not> isTaggedTemplate (callee node))"
  proof
    assume "isJestEach_of U node \<and> \<not> isTaggedTemplate (callee node)"
    then have "spec_classify U ctx node = NoneC" by (rule skipped_none)
    with assms show False by (simp add: matching_def)
  qed
  have loc: "findCallbackArg U node (isJestEach_of U node) ctx = Some cb"
    using assms located_eq[OF ns, of ctx] by (simp add: matching_def)
  have off: "(if isJestEach_of U node then 1 else 0) = spec_offset (spec_classify U ctx node)"
    by (rule offset_eq[OF ns])
  have len: "length (params cb) = 1 + spec_offset (spec_classify U ctx node)"
    and f: "isFunction cb"
    using assms by (simp_all add: matching_def)
  show ?thesis
    unfolding CallExpression_listener_def Let_def callbackSlot_def
    using ns loc off len f by (simp del: spec_offset.simps)
qed

lemma listener_not_matching:
  assumes "\<And>cb. \<not> matching U ctx node cb"
  shows "CallExpression_listener U ctx node = []"
proof (cases "isJestEach_of U node \<and> \<not> isTaggedTemplate (callee node)")
  case True
  then show ?thesis by (simp add: CallExpression_listener_def)
next
  case ns: False
  show ?thesis
  proof (cases "findCallbackArg U node (isJestEach_of U node) ctx")
    case None
    then show ?thesis by (simp add: CallExpression_listener_def Let_def)
  next
    case (Some cb)
    then have "spec_locate (spec_classify U ctx node) node = Some cb"
      using located_eq[OF ns, of ctx] by simp
    with assms[of cb]
    have "\<not> isFunction cb \<or> length (params cb) \<noteq> 1 + spec_offset (spec_classify U ctx node)"
      by (simp add: matching_def)
    then show ?thesis
      using Some offset_eq[OF ns, of ctx]
      unfolding CallExpression_listener_def Let_def by (auto simp del: spec_offset.simps)
  qed
qed

lemma listener_nonempty_of_matching:
  "matching U ctx node cb \<Longrightarrow> CallExpression_listener U ctx node \<noteq> []"
  by (simp add: listener_matching Let_def)

text \<open>
  C5. A diagnostic is produced exactly when the callback argument located per
  classification (argument 0 of a hook call with at least one argument, argument 1 of
  a test call with at least two arguments, argument 1 of a tagged-template
  parameterized-test call, nothing otherwise) exists, is a function literal and has
  exactly \<open>1 + offset\<close> parameters, the offset being 1 for a parameterized test and 0
  otherwise. Any call that fails one of these guards produces no diagnostic.
\<close>

theorem C5_diagnostic_iff_guards:
  "CallExpression_listener U ctx node \<noteq> [] \<longleftrightarrow> (\<exists>cb. matching U ctx node cb)"
proof
  assume "CallExpression_listener U ctx node \<noteq> []"
  then show "\<exists>cb. matching U ctx node cb"
    using listener_not_matching[of U ctx node] by blast
next
  assume "\<exists>cb. matching U ctx node cb"
  then show "CallExpression_listener U ctx node \<noteq> []"
    using listener_nonempty_of_matching by blast
qed

text \<open>
  C5, at two call sites: \<^verbatim>\<open>beforeEach(function (done) { done(); })\<close> passes the guards
  and is reported; the rewritten call, whose callback has no parameter, fails the
  parameter-count guard and is not.
\<close>

theorem C5_witness:
  "matching utils_model (context_of hook_tokens) hook_call hook_callback \<and>
   CallExpression_listener utils_model (context_of hook_tokens) hook_call \<noteq> [] \<and>
   (\<forall>cb. \<not> matching utils_model (context_of []) rewritten_call cb) \<and>
   CallExpression_listener utils_model (context_of []) rewritten_call = []"
proof -
  have m: "matching utils_model (context_of hook_tokens) hook_call hook_callback"
    by (simp add: rule_defs scenario_defs)
  have n: "\<forall>cb. \<not> matching utils_model (context_of []) rewritten_call cb"
    by (simp add: rule_defs scenario_defs)
  from m have "CallExpression_listener utils_model (context_of hook_tokens) hook_call \<noteq> []"
    using C5_diagnostic_iff_guards[of utils_model "context_of hook_tokens" hook_call] by blast
  moreover from n have "CallExpression_listener utils_model (context_of []) rewritten_call = []"
    using C5_diagnostic_iff_guards[of utils_model "context_of []" rewritten_call] by blast
  ultimately show ?thesis using m n by blast
qed

section \<open>Which diagnostic is reported\<close>

text \<open>
  C4. For every matching call whose callback is a synchronous function literal and
  whose callback-slot parameter is a plain identifier, the listener reports exactly
  one diagnostic; its node is the callback parameter (an identifier, so never a call
  expression), and it carries exactly one suggestion, whose message data gives the
  name of the callback parameter under the key \<open>callback\<close>.
\<close>

theorem C4_one_diagnostic_one_suggestion:
  assumes "matching U ctx node cb"
    and "\<not> async cb"
    and "isIdentifier (callbackSlot U ctx node cb)"
  shows "CallExpression_listener U ctx node =
           [\<lparr>r_node = callbackSlot U ctx node cb, r_messageId = noDoneCallback,
             r_suggest = [\<lparr>s_messageId = suggestWrappingInPromise,
                            s_data = [(''callback'', name (callbackSlot U ctx node cb))],
                            s_fix = fix_fn ctx cb (callbackSlot U ctx node cb)\<rparr>]\<rparr>] \<and>
         callbackSlot U ctx node cb \<noteq> CallExpression rg c args"
proof -
  have "callbackSlot U ctx node cb \<noteq> CallExpression rg c args"
    using assms(3) by (auto simp: isIdentifier_def)
  then show ?thesis
    using assms by (simp add: listener_matching Let_def)
qed

text \<open>
  C4, at \<^verbatim>\<open>beforeEach(function (done) { done(); })\<close>: one diagnostic at the parameter
  \<open>done\<close>, with one suggestion whose data names \<open>done\<close>.
\<close>

theorem C4_witness:
  "matching utils_model (context_of hook_tokens) hook_call hook_callback \<and>
   \<not> async hook_callback \<and>
   isIdentifier (callbackSlot utils_model (context_of hook_tokens) hook_call hook_callback) \<and>
   CallExpression_listener utils_model (context_of hook_tokens) hook_call =
     [\<lparr>r_node = Identifier (21, 25) ''done'', r_messageId = noDoneCallback,
       r_suggest = [\<lparr>s_messageId = suggestWrappingInPromise,
                      s_data = [(''callback'', ''done'')],
                      s_fix = fix_fn (context_of hook_tokens) hook_callback
                                (Identifier (21, 25) ''done'')\<rparr>]\<rparr>]"
proof -
  have m: "matching utils_model (context_of hook_tokens) hook_call hook_callback"
    by (simp add: rule_defs scenario_defs)
  have a: "\<not> async hook_callback"
    by (simp add: hook_callback_def)
  have s: "callbackSlot utils_model (context_of hook_tokens) hook_call hook_callback =
           Identifier (21, 25) ''done''"
    by (simp add: rule_defs scenario_defs)
  have i: "isIdentifier (callbackSlot utils_model (context_of hook_tokens) hook_call hook_callback)"
    by (simp add: s isIdentifier_def)
  show ?thesis
    using C4_one_diagnostic_one_suggestion[OF m a i] m a i s by simp
qed

text \<open>
  C6. For every matching callback: if the callback-slot parameter is not a plain
  identifier, the listener reports \<open>noDoneCallback\<close> at it with no suggestion, whether
  the function is asynchronous or not; otherwise, if the function is asynchronous, it
  reports \<open>useAwaitInsteadOfCallback\<close> at it with no suggestion.
\<close>

theorem C6_diagnostic_without_rewrite:
  assumes "matching U ctx node cb"
  shows "(\<not> isIdentifier (callbackSlot U ctx node cb) \<longrightarrow>
            CallExpression_listener U ctx node =
              [\<lparr>r_node = callbackSlot U ctx node cb, r_messageId = noDoneCallback,
                r_suggest = []\<rparr>]) \<and>
         (isIdentifier (callbackSlot U ctx node cb) \<and> async cb \<longrightarrow>
            CallExpression_listener U ctx node =
              [\<lparr>r_node = callbackSlot U ctx node cb, r_messageId = useAwaitInsteadOfCallback,
                r_suggest = []\<rparr>])"
  using assms by (simp add: listener_matching Let_def)

text \<open>
  C6, at \<^verbatim>\<open>beforeEach(({ done }) => { done(); })\<close>, at its asynchronous variant
  \<^verbatim>\<open>beforeEach(async ({ done }) => { done(); })\<close>, and at
  \<^verbatim>\<open>beforeEach(async (done) => { done(); })\<close>.
\<close>

theorem C6_witness:
  "CallExpression_listener utils_model (context_of pattern_tokens) pattern_call =
     [\<lparr>r_node = ObjectPattern (12, 20), r_messageId = noDoneCallback, r_suggest = []\<rparr>] \<and>
   CallExpression_listener utils_model (context_of []) async_pattern_call =
     [\<lparr>r_node = ObjectPattern (18, 26), r_messageId = noDoneCallback, r_suggest = []\<rparr>] \<and>
   CallExpression_listener utils_model (context_of async_tokens) async_call =
     [\<lparr>r_node = Identifier (18, 22) ''done'', r_messageId = useAwaitInsteadOfCallback,
       r_suggest = []\<rparr>]"
proof -
  let ?p = "ArrowFunctionExpression (11, 36) [ObjectPattern (12, 20)] (BlockStatement (25, 36)) False"
  let ?q = "ArrowFunctionExpression (11, 42) [ObjectPattern (18, 26)] (BlockStatement (31, 42)) True"
  let ?a = "ArrowFunctionExpression (11, 38) [Identifier (18, 22) ''done''] (BlockStatement (27, 38)) True"
  have mp: "matching utils_model (context_of pattern_tokens) pattern_call ?p"
    by (simp add: rule_defs scenario_defs)
  have sp: "callbackSlot utils_model (context_of pattern_tokens) pattern_call ?p = ObjectPattern (12, 20)"
    by (simp add: rule_defs scenario_defs)
  have mq: "matching utils_model (context_of []) async_pattern_call ?q"
    by (simp add: rule_defs scenario_defs)
  have sq: "callbackSlot utils_model (context_of []) async_pattern_call ?q = ObjectPattern (18, 26)"
    by (simp add: rule_defs scenario_defs)
  have ma: "matching utils_model (context_of async_tokens) async_call ?a"
    by (simp add: rule_defs scenario_defs)
  have sa: "callbackSlot utils_model (context_of async_tokens) async_call ?a = Identifier (18, 22) ''done''"
    by (simp add: rule_defs scenario_defs)
  show ?thesis
    using C6_diagnostic_without_rewrite[OF mp] C6_diagnostic_without_rewrite[OF mq]
      C6_diagnostic_without_rewrite[OF ma]
    by (simp add: sp sq sa isIdentifier_def)
qed

text \<open>
  C7. For every call expression whose resolved callee name ends in \<open>.each\<close> and whose
  callee is not a tagged-template expression (the direct-call form
  \<open>name(table)(args)\<close>), the listener reports nothing, whatever the arguments are.
\<close>

theorem C7_direct_call_each_skipped:
  assumes "getNodeName U (callee node) = Some calleeName"
    and "endsWith calleeName ''.each''"
    and "\<not> isTaggedTemplate (callee node)"
  shows "CallExpression_listener U ctx node = []"
  using assms by (simp add: CallExpression_listener_def isJestEach_of_def)

text \<open>
  C7, at \<^verbatim>\<open>it.each([1, 2])(`x`, (n, done) => done())\<close>, whose callback would qualify in
  tagged-template form.
\<close>

theorem C7_witness:
  "getNodeName utils_model (callee direct_call) = Some ''it.each'' \<and>
   endsWith ''it.each'' ''.each'' \<and>
   \<not> isTaggedTemplate (callee direct_call) \<and>
   CallExpression_listener utils_model (context_of direct_tokens) direct_call = []"
proof -
  have n: "getNodeName utils_model (callee direct_call) = Some ''it.each''"
    by (simp add: scenario_defs)
  have e: "endsWith ''it.each'' ''.each''"
    by (simp add: endsWith_def)
  have t: "\<not> isTaggedTemplate (callee direct_call)"
    by (simp add: isTaggedTemplate_def direct_call_def)
  show ?thesis
    using C7_direct_call_each_skipped[OF n e t, of "context_of direct_tokens"] n e t by simp
qed

section \<open>The edit plan of the suggestion\<close>

lemma fix_fn_result:
  assumes "params cb = firstParam # rest"
    and "getFirstToken (getSourceCode ctx) (body cb) = Some fb"
    and "getLastToken (getSourceCode ctx) (body cb) = Some lb"
    and "getTokenBefore (getSourceCode ctx) (N firstParam) = Some tb"
    and "skipComma (getSourceCode ctx)
           (getTokenAfter (getSourceCode ctx) (N (last (params cb)))) = Some ta"
  shows "fix_fn ctx cb arg =
     Inr [if tok_value tb = ''('' \<and> tok_value ta = '')''
          then removeRange (snd (tok_range tb), fst (tok_range ta))
          else replaceText (N firstParam) ''()'',
          if isBlockStatement (body cb)
          then insertTextAfter (T fb) (''return new Promise('' @ name arg @ '' => {'')
          else insertTextBefore (T fb) (''new Promise('' @ name arg @ '' => ''),
          insertTextAfter (T lb) (if isBlockStatement (body cb) then '')}'' else '')'')]"
  using assms by (simp add: fix_fn_def Let_def)

lemma fix_fn_Inr_tokens:
  assumes "fix_fn ctx cb arg = Inr edits"
  shows "\<exists>firstParam rest fb lb tb ta.
           params cb = firstParam # rest \<and>
           getFirstToken (getSourceCode ctx) (body cb) = Some fb \<and>
           getLastToken (getSourceCode ctx) (body cb) = Some lb \<and>
           getTokenBefore (getSourceCode ctx) (N firstParam) = Some tb \<and>
           skipComma (getSourceCode ctx)
             (getTokenAfter (getSourceCode ctx) (N (last (params cb)))) = Some ta"
  using assms
  by (auto simp: fix_fn_def Let_def split: list.splits option.splits)

lemma fix_fn_missing_token:
  assumes "getFirstToken (getSourceCode ctx) (body cb) = None \<or>
           getLastToken (getSourceCode ctx) (body cb) = None \<or>
           getTokenBefore (getSourceCode ctx) (N (hd (params cb))) = None \<or>
           skipComma (getSourceCode ctx)
             (getTokenAfter (getSourceCode ctx) (N (last (params cb)))) = None"
  shows "fix_fn ctx cb arg = Inl (if params cb = [] then TypeError else unexpectedNull ctx)"
  using assms
  by (auto simp: fix_fn_def Let_def split: list.splits option.splits)

lemma skipComma_None [simp]: "skipComma sc None = None"
  by (simp add: skipComma_def)

lemma skipComma_other:
  "tok_value t \<noteq> '','' \<Longrightarrow> skipComma sc (Some t) = Some t"
  by (simp add: skipComma_def)

lemma skipComma_comma:
  "tok_value t = '','' \<Longrightarrow> skipComma sc (Some t) = getTokenAfter sc (T t)"
  by (simp add: skipComma_def)

lemma find_holds: "find P xs = Some x \<Longrightarrow> P x"
  by (induction xs) (auto split: if_splits)

lemma tokenStore_inOrder: "tokensInOrder (tokenStore toks)"
  by (auto simp: tokensInOrder_def tokenStore_def dest: find_holds)

text \<open>
  C8. If any of the four anchor tokens of the rewrite (first body token, last body
  token, token before the first parameter, token after the last parameter, also after
  a trailing comma is skipped) cannot be located, the fix function throws and returns
  no edits: for the non-empty parameter list of a reported callback, the error is the
  \<open>Unexpected null\<close> error.
\<close>

theorem C8_missing_anchor_token_throws:
  assumes "getFirstToken (getSourceCode ctx) (body cb) = None \<or>
           getLastToken (getSourceCode ctx) (body cb) = None \<or>
           getTokenBefore (getSourceCode ctx) (N (hd (params cb))) = None \<or>
           getTokenAfter (getSourceCode ctx) (N (last (params cb))) = None \<or>
           skipComma (getSourceCode ctx)
             (getTokenAfter (getSourceCode ctx) (N (last (params cb)))) = None"
  shows "(\<forall>edits. fix_fn ctx cb arg \<noteq> Inr edits) \<and>
         (params cb \<noteq> [] \<longrightarrow> fix_fn ctx cb arg = Inl (unexpectedNull ctx))"
proof -
  have "getFirstToken (getSourceCode ctx) (body cb) = None \<or>
        getLastToken (getSourceCode ctx) (body cb) = None \<or>
        getTokenBefore (getSourceCode ctx) (N (hd (params cb))) = None \<or>
        skipComma (getSourceCode ctx)
          (getTokenAfter (getSourceCode ctx) (N (last (params cb)))) = None"
    using assms by auto
  then have "fix_fn ctx cb arg = Inl (if params cb = [] then TypeError else unexpectedNull ctx)"
    by (rule fix_fn_missing_token)
  then show ?thesis by simp
qed

text \<open>
  C8, at the callback of \<^verbatim>\<open>beforeEach(function (done) { done(); })\<close> over a token
  stream that ends before the callback's body: the tokens around the parameter are
  found, the body tokens are not, and the fix function throws.
\<close>

theorem C8_witness:
  "getFirstToken (getSourceCode (context_of truncated_tokens)) (body hook_callback) = None \<and>
   getTokenBefore (getSourceCode (context_of truncated_tokens)) (N (hd (params hook_callback)))
     = Some (tok ''('' 20 21) \<and>
   params hook_callback \<noteq> [] \<and>
   fix_fn (context_of truncated_tokens) hook_callback (Identifier (21, 25) ''done'') =
     Inl (Error (''Unexpected null when attempting to fix example.test.js'' @
                 '' - please file a github issue at https://github.com/jest-community/eslint-plugin-jest''))"
proof -
  have f: "getFirstToken (getSourceCode (context_of truncated_tokens)) (body hook_callback) = None"
    by (simp add: context_of_def tokenStore_def truncated_tokens_def hook_callback_def tok_def
        inside_def)
  have b: "getTokenBefore (getSourceCode (context_of truncated_tokens))
             (N (hd (params hook_callback))) = Some (tok ''('' 20 21)"
    by (simp add: context_of_def tokenStore_def truncated_tokens_def hook_callback_def tok_def)
  have p: "params hook_callback \<noteq> []"
    by (simp add: hook_callback_def)
  have u: "unexpectedNull (context_of truncated_tokens) =
           Error (''Unexpected null when attempting to fix example.test.js'' @
                 '' - please file a github issue at https://github.com/jest-community/eslint-plugin-jest'')"
    by (simp add: unexpectedNull_def context_of_def)
  show ?thesis
    using C8_missing_anchor_token_throws[of "context_of truncated_tokens" hook_callback
        "Identifier (21, 25) ''done''"] f b p u
    by simp
qed

lemmas edit_defs = removeRange_def replaceText_def insertTextAfter_def insertTextBefore_def

lemmas store_defs = context_of_def tokenStore_def tok_def inside_def

lemmas fix_eval_defs = fix_fn_def Let_def skipComma_def isBlockStatement_def edit_defs store_defs

text \<open>
  C10. When the token immediately after the last parameter is a comma, the fix function
  looks at the token after that comma: if it is \<open>)\<close> and the token before the first
  parameter is \<open>(\<close>, the parameter edit is the removal of the span between the two
  parentheses, and that span contains the trailing comma.
\<close>

theorem C10_trailing_comma_skipped:
  assumes "params cb \<noteq> []"
    and "getFirstToken (getSourceCode ctx) (body cb) = Some fb"
    and "getLastToken (getSourceCode ctx) (body cb) = Some lb"
    and "getTokenBefore (getSourceCode ctx) (N (hd (params cb))) = Some tb"
    and "tok_value tb = ''(''"
    and "getTokenAfter (getSourceCode ctx) (N (last (params cb))) = Some comma"
    and "tok_value comma = '',''"
    and "getTokenAfter (getSourceCode ctx) (T comma) = Some ta"
    and "tok_value ta = '')''"
    and "tokensInOrder (getSourceCode ctx)"
    and "fst (node_range (hd (params cb))) \<le> snd (node_range (last (params cb)))"
  shows "\<exists>e2 e3.
           fix_fn ctx cb arg = Inr [removeRange (snd (tok_range tb), fst (tok_range ta)), e2, e3] \<and>
           covers (removeRange (snd (tok_range tb), fst (tok_range ta))) (tok_range comma)"
proof -
  obtain firstParam rest where ps: "params cb = firstParam # rest"
    using assms(1) by (cases "params cb") auto
  have sk: "skipComma (getSourceCode ctx)
              (getTokenAfter (getSourceCode ctx) (N (last (params cb)))) = Some ta"
    using assms(6,7,8) by (simp add: skipComma_comma)
  have tb: "getTokenBefore (getSourceCode ctx) (N firstParam) = Some tb"
    using assms(4) ps by simp
  have plan: "\<exists>e2 e3. fix_fn ctx cb arg =
                Inr [removeRange (snd (tok_range tb), fst (tok_range ta)), e2, e3]"
    using fix_fn_result[OF ps assms(2) assms(3) tb sk, of arg] assms(5,9) by simp
  have "snd (tok_range tb) \<le> fst (node_range (hd (params cb)))"
    using assms(10) assms(4) unfolding tokensInOrder_def by fastforce
  moreover have "snd (node_range (last (params cb))) \<le> fst (tok_range comma)"
    using assms(10) assms(6) unfolding tokensInOrder_def by fastforce
  moreover have "snd (tok_range comma) \<le> fst (tok_range ta)"
    using assms(10) assms(8) unfolding tokensInOrder_def by fastforce
  ultimately have "covers (removeRange (snd (tok_range tb), fst (tok_range ta))) (tok_range comma)"
    using assms(11) by (simp add: covers_def removeRange_def)
  with plan show ?thesis by blast
qed

text \<open>
  C10, at \<^verbatim>\<open>test(`x`, (done,) => {})\<close>, a reported call: the removed span \<open>[11, 16)\<close> is \<open>done,\<close>, the
  parameter with its trailing comma.
\<close>

theorem C10_witness:
  "CallExpression_listener utils_model (context_of comma_tokens) comma_call =
     [\<lparr>r_node = Identifier (11, 15) ''done'', r_messageId = noDoneCallback,
       r_suggest = [\<lparr>s_messageId = suggestWrappingInPromise,
                      s_data = [(''callback'', ''done'')],
                      s_fix = fix_fn (context_of comma_tokens) comma_callback
                                (Identifier (11, 15) ''done'')\<rparr>]\<rparr>] \<and>
   getTokenAfter (getSourceCode (context_of comma_tokens)) (N (last (params comma_callback)))
     = Some (tok '','' 15 16) \<and>
   getTokenAfter (getSourceCode (context_of comma_tokens)) (T (tok '','' 15 16))
     = Some (tok '')'' 16 17) \<and>
   (\<exists>e2 e3. fix_fn (context_of comma_tokens) comma_callback (Identifier (11, 15) ''done'') =
      Inr [\<lparr>fix_range = (11, 16), fix_text = ''''\<rparr>, e2, e3]) \<and>
   covers \<lparr>fix_range = (11, 16), fix_text = ''''\<rparr> (15, 16)"
proof -
  let ?ctx = "context_of comma_tokens"
  have rep: "CallExpression_listener utils_model ?ctx comma_call =
     [\<lparr>r_node = Identifier (11, 15) ''done'', r_messageId = noDoneCallback,
       r_suggest = [\<lparr>s_messageId = suggestWrappingInPromise,
                      s_data = [(''callback'', ''done'')],
                      s_fix = fix_fn ?ctx comma_callback (Identifier (11, 15) ''done'')\<rparr>]\<rparr>]"
    by (simp add: CallExpression_listener_def findCallbackArg_def Let_def rule_defs scenario_defs)
  have p: "params comma_callback \<noteq> []"
    by (simp add: comma_callback_def)
  have fb: "getFirstToken (getSourceCode ?ctx) (body comma_callback) = Some (tok ''{'' 21 22)"
    by (simp add: store_defs comma_tokens_def comma_callback_def)
  have lb: "getLastToken (getSourceCode ?ctx) (body comma_callback) = Some (tok ''}'' 22 23)"
    by (simp add: store_defs comma_tokens_def comma_callback_def)
  have tb: "getTokenBefore (getSourceCode ?ctx) (N (hd (params comma_callback)))
              = Some (tok ''('' 10 11)"
    by (simp add: store_defs comma_tokens_def comma_callback_def)
  have c: "getTokenAfter (getSourceCode ?ctx) (N (last (params comma_callback)))
              = Some (tok '','' 15 16)"
    by (simp add: store_defs comma_tokens_def comma_callback_def)
  have ta: "getTokenAfter (getSourceCode ?ctx) (T (tok '','' 15 16)) = Some (tok '')'' 16 17)"
    by (simp add: store_defs comma_tokens_def)
  have v: "tok_value (tok ''('' 10 11) = ''(''" "tok_value (tok '','' 15 16) = '',''"
    "tok_value (tok '')'' 16 17) = '')''"
    by (simp_all add: tok_def)
  have o: "tokensInOrder (getSourceCode ?ctx)"
    by (simp add: context_of_def tokenStore_inOrder)
  have r: "fst (node_range (hd (params comma_callback)))
             \<le> snd (node_range (last (params comma_callback)))"
    by (simp add: comma_callback_def)
  show ?thesis
    using C10_trailing_comma_skipped[OF p fb lb tb v(1) c v(2) ta v(3) o r,
        of "Identifier (11, 15) ''done''"] rep c ta
    by (simp add: removeRange_def tok_def)
qed

text \<open>
  C2, as stated, fails at \<^verbatim>\<open>beforeEach(function (done) { done(); })\<close>: the text
  inserted after the last token of the block body is \<open>)}\<close>, which closes the call of
  the \<open>Promise\<close> constructor and then the function body, not \<open>})\<close>.
\<close>

theorem C2_counterexample:
  "fix_fn (context_of hook_tokens) hook_callback (Identifier (21, 25) ''done'') =
     Inr [\<lparr>fix_range = (21, 25), fix_text = ''''\<rparr>,
          \<lparr>fix_range = (28, 28), fix_text = ''return new Promise(done => {''\<rparr>,
          \<lparr>fix_range = (38, 38), fix_text = '')}''\<rparr>] \<and>
   isBlockStatement (body hook_callback) \<and>
   getFirstToken (getSourceCode (context_of hook_tokens)) (body hook_callback)
     = Some (tok ''{'' 27 28) \<and>
   getLastToken (getSourceCode (context_of hook_tokens)) (body hook_callback)
     = Some (tok ''}'' 37 38) \<and>
   [\<lparr>fix_range = (28, 28), fix_text = ''return new Promise(done => {''\<rparr>,
    \<lparr>fix_range = (38, 38), fix_text = '')}''\<rparr>]
     \<noteq> spec_body_edits hook_callback ''done'' (tok ''{'' 27 28) (tok ''}'' 37 38)"
  by (simp add: fix_eval_defs hook_tokens_def hook_callback_def spec_body_edits_def)

text \<open>
  C2, amended. For every rewrite the fix function emits: if the body of the callback is
  a block, the plan inserts \<open>return new Promise(<cb> => {\<close> immediately after the
  first token of the body (its opening brace) and \<open>)}\<close> immediately after the last
  token of the body; if the body is an expression, the plan inserts
  \<open>new Promise(<cb> => \<close> immediately before the first token of the body and \<open>)\<close>
  immediately after its last token, with no \<open>return\<close> and no braces. \<open><cb>\<close> is the
  name of the callback parameter.
\<close>

theorem C2_body_edits:
  assumes "fix_fn ctx cb arg = Inr edits"
  shows "\<exists>fb lb argumentFix.
           getFirstToken (getSourceCode ctx) (body cb) = Some fb \<and>
           getLastToken (getSourceCode ctx) (body cb) = Some lb \<and>
           (isBlockStatement (body cb) \<longrightarrow>
              edits = [argumentFix,
                       \<lparr>fix_range = (snd (tok_range fb), snd (tok_range fb)),
                        fix_text = ''return new Promise('' @ name arg @ '' => {''\<rparr>,
                       \<lparr>fix_range = (snd (tok_range lb), snd (tok_range lb)),
                        fix_text = '')}''\<rparr>]) \<and>
           (\<not> isBlockStatement (body cb) \<longrightarrow>
              edits = [argumentFix,
                       \<lparr>fix_range = (fst (tok_range fb), fst (tok_range fb)),
                        fix_text = ''new Promise('' @ name arg @ '' => ''\<rparr>,
                       \<lparr>fix_range = (snd (tok_range lb), snd (tok_range lb)),
                        fix_text = '')''\<rparr>])"
proof -
  obtain firstParam rest fb lb tb ta where
    ps: "params cb = firstParam # rest" and
    fb: "getFirstToken (getSourceCode ctx) (body cb) = Some fb" and
    lb: "getLastToken (getSourceCode ctx) (body cb) = Some lb" and
    tb: "getTokenBefore (getSourceCode ctx) (N firstParam) = Some tb" and
    ta: "skipComma (getSourceCode ctx)
           (getTokenAfter (getSourceCode ctx) (N (last (params cb)))) = Some ta"
    using fix_fn_Inr_tokens[OF assms] by blast
  show ?thesis
    using fix_fn_result[OF ps fb lb tb ta, of arg] assms fb lb
    by (auto simp: insertTextAfter_def insertTextBefore_def)
qed

text \<open>
  C2 amended, at the block-bodied callback of \<^verbatim>\<open>beforeEach(function (done) { done(); })\<close>
  and at the expression-bodied callback of \<^verbatim>\<open>test(`x`, done => done())\<close>.
\<close>

theorem C2_witness:
  "(\<exists>argumentFix.
      fix_fn (context_of hook_tokens) hook_callback (Identifier (21, 25) ''done'') =
        Inr [argumentFix,
             \<lparr>fix_range = (28, 28), fix_text = ''return new Promise(done => {''\<rparr>,
             \<lparr>fix_range = (38, 38), fix_text = '')}''\<rparr>]) \<and>
   (\<exists>argumentFix.
      fix_fn (context_of arrow_tokens) arrow_callback (Identifier (10, 14) ''done'') =
        Inr [argumentFix,
             \<lparr>fix_range = (18, 18), fix_text = ''new Promise(done => ''\<rparr>,
             \<lparr>fix_range = (24, 24), fix_text = '')''\<rparr>])"
proof -
  let ?h = "[\<lparr>fix_range = (21, 25), fix_text = ''''\<rparr>,
             \<lparr>fix_range = (28, 28), fix_text = ''return new Promise(done => {''\<rparr>,
             \<lparr>fix_range = (38, 38), fix_text = '')}''\<rparr>]"
  let ?a = "[\<lparr>fix_range = (10, 14), fix_text = ''()''\<rparr>,
             \<lparr>fix_range = (18, 18), fix_text = ''new Promise(done => ''\<rparr>,
             \<lparr>fix_range = (24, 24), fix_text = '')''\<rparr>]"
  have h: "fix_fn (context_of hook_tokens) hook_callback (Identifier (21, 25) ''done'') = Inr ?h"
    by (simp add: fix_eval_defs hook_tokens_def hook_callback_def)
  have a: "fix_fn (context_of arrow_tokens) arrow_callback (Identifier (10, 14) ''done'') = Inr ?a"
    by (simp add: fix_eval_defs arrow_tokens_def arrow_callback_def)
  have hb: "isBlockStatement (body hook_callback)"
    by (simp add: isBlockStatement_def hook_callback_def)
  have ab: "\<not> isBlockStatement (body arrow_callback)"
    by (simp add: isBlockStatement_def arrow_callback_def)
  have hf: "getFirstToken (getSourceCode (context_of hook_tokens)) (body hook_callback)
              = Some (tok ''{'' 27 28)"
    and hl: "getLastToken (getSourceCode (context_of hook_tokens)) (body hook_callback)
              = Some (tok ''}'' 37 38)"
    by (simp_all add: store_defs hook_tokens_def hook_callback_def)
  have af: "getFirstToken (getSourceCode (context_of arrow_tokens)) (body arrow_callback)
              = Some (tok ''done'' 18 22)"
    and al: "getLastToken (getSourceCode (context_of arrow_tokens)) (body arrow_callback)
              = Some (tok '')'' 23 24)"
    by (simp_all add: store_defs arrow_tokens_def arrow_callback_def)
  from C2_body_edits[OF h] hb hf hl
  have 1: "\<exists>argumentFix. ?h = [argumentFix,
             \<lparr>fix_range = (28, 28), fix_text = ''return new Promise(done => {''\<rparr>,
             \<lparr>fix_range = (38, 38), fix_text = '')}''\<rparr>]"
    by (simp add: tok_def)
  from C2_body_edits[OF a] ab af al
  have 2: "\<exists>argumentFix. ?a = [argumentFix,
             \<lparr>fix_range = (18, 18), fix_text = ''new Promise(done => ''\<rparr>,
             \<lparr>fix_range = (24, 24), fix_text = '')''\<rparr>]"
    by (simp add: tok_def)
  show ?thesis using 1 2 h a by simp
qed

text \<open>
  C3, as stated, fails at \<^verbatim>\<open>test.each`t`(`x`, (n, done) => done())\<close>: the callback slot
  \<open>done\<close> is not the only parameter, yet the parameter edit is not the replacement
  of \<open>done\<close> by \<open>()\<close> but the removal of the whole span \<open>n, done\<close> between the
  parentheses.
\<close>

theorem C3_counterexample:
  "CallExpression_listener utils_model (context_of table_tokens) table_call =
     [\<lparr>r_node = Identifier (22, 26) ''done'', r_messageId = noDoneCallback,
       r_suggest = [\<lparr>s_messageId = suggestWrappingInPromise,
                      s_data = [(''callback'', ''done'')],
                      s_fix = Inr [\<lparr>fix_range = (19, 26), fix_text = ''''\<rparr>,
                                   \<lparr>fix_range = (31, 31), fix_text = ''new Promise(done => ''\<rparr>,
                                   \<lparr>fix_range = (37, 37), fix_text = '')''\<rparr>]\<rparr>]\<rparr>] \<and>
   getTokenBefore (getSourceCode (context_of table_tokens)) (N (Identifier (19, 20) ''n''))
     = Some (tok ''('' 18 19) \<and>
   getTokenAfter (getSourceCode (context_of table_tokens)) (N (Identifier (22, 26) ''done''))
     = Some (tok '')'' 26 27) \<and>
   spec_param_edit table_callback (Identifier (22, 26) ''done'') (tok ''('' 18 19) (tok '')'' 26 27)
     = \<lparr>fix_range = (22, 26), fix_text = ''()''\<rparr> \<and>
   \<lparr>fix_range = (19, 26), fix_text = ''''\<rparr>
     \<noteq> spec_param_edit table_callback (Identifier (22, 26) ''done'') (tok ''('' 18 19)
          (tok '')'' 26 27)"
  by (simp add: CallExpression_listener_def findCallbackArg_def rule_defs scenario_defs
      fix_eval_defs table_tokens_def spec_param_edit_def)

text \<open>
  C3, amended. For every rewrite emitted for a matching call, the parameter edit
  replaces the text span of the first parameter by \<open>()\<close>, except when the token
  before the first parameter is \<open>(\<close> and the token after the last parameter (the
  token after the comma, when a comma follows the last parameter) is \<open>)\<close>: then,
  whether the callback slot is the only parameter or not, the edit removes the span
  between those parentheses. Outside parameterized tests the first parameter is the
  callback slot and the only parameter.
\<close>

theorem C3_parameter_edit:
  assumes "matching U ctx node cb"
    and "fix_fn ctx cb (callbackSlot U ctx node cb) = Inr edits"
  shows "\<exists>tb ta e2 e3.
           getTokenBefore (getSourceCode ctx) (N (hd (params cb))) = Some tb \<and>
           skipComma (getSourceCode ctx)
             (getTokenAfter (getSourceCode ctx) (N (last (params cb)))) = Some ta \<and>
           edits = [if tok_value tb = ''('' \<and> tok_value ta = '')''
                    then \<lparr>fix_range = (snd (tok_range tb), fst (tok_range ta)), fix_text = ''''\<rparr>
                    else \<lparr>fix_range = node_range (hd (params cb)), fix_text = ''()''\<rparr>,
                    e2, e3] \<and>
           (spec_classify U ctx node \<noteq> ParameterizedTest \<longrightarrow>
              params cb = [callbackSlot U ctx node cb])"
proof -
  obtain firstParam rest fb lb tb ta where
    ps: "params cb = firstParam # rest" and
    fb: "getFirstToken (getSourceCode ctx) (body cb) = Some fb" and
    lb: "getLastToken (getSourceCode ctx) (body cb) = Some lb" and
    tb: "getTokenBefore (getSourceCode ctx) (N firstParam) = Some tb" and
    ta: "skipComma (getSourceCode ctx)
           (getTokenAfter (getSourceCode ctx) (N (last (params cb)))) = Some ta"
    using fix_fn_Inr_tokens[OF assms(2)] by blast
  have only: "spec_classify U ctx node \<noteq> ParameterizedTest \<longrightarrow>
                params cb = [callbackSlot U ctx node cb]"
  proof
    assume "spec_classify U ctx node \<noteq> ParameterizedTest"
    then have "spec_offset (spec_classify U ctx node) = 0"
      by (cases "spec_classify U ctx node") simp_all
    then show "params cb = [callbackSlot U ctx node cb]"
      using assms(1) ps by (simp add: matching_def callbackSlot_def)
  qed
  have "\<exists>e2 e3. edits =
          [if tok_value tb = ''('' \<and> tok_value ta = '')''
           then \<lparr>fix_range = (snd (tok_range tb), fst (tok_range ta)), fix_text = ''''\<rparr>
           else \<lparr>fix_range = node_range (hd (params cb)), fix_text = ''()''\<rparr>, e2, e3]"
    using fix_fn_result[OF ps fb lb tb ta, of "callbackSlot U ctx node cb"] assms(2) ps
    by (auto simp: removeRange_def replaceText_def)
  then show ?thesis
    using tb ta ps only by auto
qed

text \<open>
  C3 amended, at \<^verbatim>\<open>test(`x`, done => done())\<close>, where the parameter has no parentheses
  and is replaced by \<open>()\<close>, and at \<^verbatim>\<open>test.each`t`(`x`, (n, done) => done())\<close>, where the
  span between the parentheses is removed.
\<close>

theorem C3_witness:
  "matching utils_model (context_of arrow_tokens) arrow_call arrow_callback \<and>
   (\<exists>e2 e3. fix_fn (context_of arrow_tokens) arrow_callback (Identifier (10, 14) ''done'') =
      Inr [\<lparr>fix_range = (10, 14), fix_text = ''()''\<rparr>, e2, e3]) \<and>
   matching utils_model (context_of table_tokens) table_call table_callback \<and>
   (\<exists>e2 e3. fix_fn (context_of table_tokens) table_callback (Identifier (22, 26) ''done'') =
      Inr [\<lparr>fix_range = (19, 26), fix_text = ''''\<rparr>, e2, e3])"
proof -
  let ?A = "context_of arrow_tokens" and ?T = "context_of table_tokens"
  have ma: "matching utils_model ?A arrow_call arrow_callback"
    and mt: "matching utils_model ?T table_call table_callback"
    by (simp_all add: rule_defs scenario_defs)
  have sa: "callbackSlot utils_model ?A arrow_call arrow_callback = Identifier (10, 14) ''done''"
    and st: "callbackSlot utils_model ?T table_call table_callback = Identifier (22, 26) ''done''"
    by (simp_all add: rule_defs scenario_defs)
  obtain ea where ea: "fix_fn ?A arrow_callback (Identifier (10, 14) ''done'') = Inr ea"
    by (simp add: fix_eval_defs arrow_tokens_def arrow_callback_def)
  obtain et where et: "fix_fn ?T table_callback (Identifier (22, 26) ''done'') = Inr et"
    by (simp add: fix_eval_defs table_tokens_def table_callback_def)
  have ba: "getTokenBefore (getSourceCode ?A) (N (hd (params arrow_callback))) = Some (tok '','' 8 9)"
    and aa: "skipComma (getSourceCode ?A)
               (getTokenAfter (getSourceCode ?A) (N (last (params arrow_callback))))
             = Some (tok ''=>'' 15 17)"
    by (simp_all add: store_defs skipComma_def arrow_tokens_def arrow_callback_def)
  have bt: "getTokenBefore (getSourceCode ?T) (N (hd (params table_callback))) = Some (tok ''('' 18 19)"
    and at: "skipComma (getSourceCode ?T)
               (getTokenAfter (getSourceCode ?T) (N (last (params table_callback))))
             = Some (tok '')'' 26 27)"
    by (simp_all add: store_defs skipComma_def table_tokens_def table_callback_def)
  have 1: "\<exists>e2 e3. ea = [\<lparr>fix_range = (10, 14), fix_text = ''()''\<rparr>, e2, e3]"
    using C3_parameter_edit[OF ma, of ea] ea sa ba aa
    by (auto simp: tok_def arrow_callback_def)
  have 2: "\<exists>e2 e3. et = [\<lparr>fix_range = (19, 26), fix_text = ''''\<rparr>, e2, e3]"
    using C3_parameter_edit[OF mt, of et] et st bt at
    by (auto simp: tok_def table_callback_def)
  show ?thesis
    using ma mt ea et 1 2 by simp
qed

section \<open>Parameterized tests and the rewritten call\<close>

text \<open>
  C1, as stated, fails at \<^verbatim>\<open>it.each`t`(`x`, function (n, done) { done(); })\<close>: the
  suggestion is offered, but its parameter edit removes the span \<open>[26, 33)\<close>, that is
  \<open>n, done\<close>, so the case parameter \<open>n\<close> at \<open>[26, 27)\<close> is not left in place; the
  rewritten text has an empty parameter list.
\<close>

theorem C1_counterexample:
  "CallExpression_listener utils_model (context_of each_tokens) each_call =
     [\<lparr>r_node = Identifier (29, 33) ''done'', r_messageId = noDoneCallback,
       r_suggest = [\<lparr>s_messageId = suggestWrappingInPromise,
                      s_data = [(''callback'', ''done'')],
                      s_fix = Inr [\<lparr>fix_range = (26, 33), fix_text = ''''\<rparr>,
                                   \<lparr>fix_range = (36, 36),
                                    fix_text = ''return new Promise(done => {''\<rparr>,
                                   \<lparr>fix_range = (46, 46), fix_text = '')}''\<rparr>]\<rparr>]\<rparr>] \<and>
   \<not> leaves_in_place [\<lparr>fix_range = (26, 33), fix_text = ''''\<rparr>,
                       \<lparr>fix_range = (36, 36), fix_text = ''return new Promise(done => {''\<rparr>,
                       \<lparr>fix_range = (46, 46), fix_text = '')}''\<rparr>]
                      (Identifier (26, 27) ''n'') \<and>
   applyFixes [\<lparr>fix_range = (26, 33), fix_text = ''''\<rparr>,
               \<lparr>fix_range = (36, 36), fix_text = ''return new Promise(done => {''\<rparr>,
               \<lparr>fix_range = (46, 46), fix_text = '')}''\<rparr>] each_source
     = each_rewritten_source"
  by (simp add: CallExpression_listener_def findCallbackArg_def rule_defs scenario_defs
      fix_eval_defs each_tokens_def leaves_in_place_def applyFixes_def applyFix_def
      each_source_def each_rewritten_source_def)

text \<open>
  C1, amended. For a parameterized-test call in tagged-template form whose callback is
  a synchronous function with parameters \<open>(n, done)\<close> between parentheses, where
  \<open>done\<close> is a plain identifier, the rule produces one diagnostic at \<open>done\<close> with a
  suggested rewrite whose parameter edit removes the whole span between the
  parentheses of the parameter list: the span covers both the case parameter \<open>n\<close> and
  \<open>done\<close>.
\<close>

theorem C1_each_rewrite_removes_all_parameters:
  assumes "spec_classify U ctx node = ParameterizedTest"
    and "at_index (arguments node) 1 = Some cb"
    and "isFunction cb"
    and "params cb = [n, d]"
    and "isIdentifier d"
    and "\<not> async cb"
    and "getFirstToken (getSourceCode ctx) (body cb) = Some fb"
    and "getLastToken (getSourceCode ctx) (body cb) = Some lb"
    and "getTokenBefore (getSourceCode ctx) (N n) = Some tb"
    and "tok_value tb = ''(''"
    and "getTokenAfter (getSourceCode ctx) (N d) = Some ta"
    and "tok_value ta = '')''"
    and "tokensInOrder (getSourceCode ctx)"
    and "fst (node_range n) \<le> snd (node_range n)"
    and "snd (node_range n) \<le> fst (node_range d)"
    and "fst (node_range d) \<le> snd (node_range d)"
  shows "\<exists>e2 e3.
           CallExpression_listener U ctx node =
             [\<lparr>r_node = d, r_messageId = noDoneCallback,
               r_suggest = [\<lparr>s_messageId = suggestWrappingInPromise,
                              s_data = [(''callback'', name d)],
                              s_fix = Inr [removeRange (snd (tok_range tb), fst (tok_range ta)),
                                           e2, e3]\<rparr>]\<rparr>] \<and>
           covers (removeRange (snd (tok_range tb), fst (tok_range ta))) (node_range n) \<and>
           covers (removeRange (snd (tok_range tb), fst (tok_range ta))) (node_range d)"
proof -
  have m: "matching U ctx node cb"
    using assms(1-4) by (simp add: matching_def)
  have slot: "callbackSlot U ctx node cb = d"
    using assms(1,4) by (simp add: callbackSlot_def)
  have rep: "CallExpression_listener U ctx node =
               [\<lparr>r_node = d, r_messageId = noDoneCallback,
                 r_suggest = [\<lparr>s_messageId = suggestWrappingInPromise,
                                s_data = [(''callback'', name d)],
                                s_fix = fix_fn ctx cb d\<rparr>]\<rparr>]"
    using listener_matching[OF m] slot assms(5,6) by (simp add: Let_def)
  have sk: "skipComma (getSourceCode ctx)
              (getTokenAfter (getSourceCode ctx) (N (last (params cb)))) = Some ta"
    using assms(4,11,12) by (simp add: skipComma_other)
  have plan: "\<exists>e2 e3. fix_fn ctx cb d =
                Inr [removeRange (snd (tok_range tb), fst (tok_range ta)), e2, e3]"
    using fix_fn_result[OF assms(4) assms(7) assms(8) assms(9) sk, of d] assms(10,12) by simp
  have b: "snd (tok_range tb) \<le> fst (node_range n)"
    using assms(13) assms(9) unfolding tokensInOrder_def by fastforce
  have a: "snd (node_range d) \<le> fst (tok_range ta)"
    using assms(13) assms(11) unfolding tokensInOrder_def by fastforce
  have cn: "covers (removeRange (snd (tok_range tb), fst (tok_range ta))) (node_range n)"
    using a b assms(14-16) by (simp add: covers_def removeRange_def)
  have cd: "covers (removeRange (snd (tok_range tb), fst (tok_range ta))) (node_range d)"
    using a b assms(14-16) by (simp add: covers_def removeRange_def)
  from plan obtain e2 e3 where
    "fix_fn ctx cb d = Inr [removeRange (snd (tok_range tb), fst (tok_range ta)), e2, e3]"
    by blast
  with rep cn cd show ?thesis by simp
qed

text \<open>
  C1 amended, at \<^verbatim>\<open>it.each`t`(`x`, function (n, done) { done(); })\<close>: the removed span
  \<open>[26, 33)\<close> covers \<open>n\<close> at \<open>[26, 27)\<close> and \<open>done\<close> at \<open>[29, 33)\<close>.
\<close>

theorem C1_witness:
  "spec_classify utils_model (context_of each_tokens) each_call = ParameterizedTest \<and>
   at_index (arguments each_call) 1 = Some each_callback \<and>
   params each_callback = [Identifier (26, 27) ''n'', Identifier (29, 33) ''done''] \<and>
   (\<exists>e2 e3.
      CallExpression_listener utils_model (context_of each_tokens) each_call =
        [\<lparr>r_node = Identifier (29, 33) ''done'', r_messageId = noDoneCallback,
          r_suggest = [\<lparr>s_messageId = suggestWrappingInPromise,
                         s_data = [(''callback'', ''done'')],
                         s_fix = Inr [\<lparr>fix_range = (26, 33), fix_text = ''''\<rparr>, e2, e3]\<rparr>]\<rparr>]) \<and>
   covers \<lparr>fix_range = (26, 33), fix_text = ''''\<rparr> (26, 27) \<and>
   covers \<lparr>fix_range = (26, 33), fix_text = ''''\<rparr> (29, 33)"
proof -
  let ?ctx = "context_of each_tokens"
  let ?n = "Identifier (26, 27) ''n''" and ?d = "Identifier (29, 33) ''done''"
  have c: "spec_classify utils_model ?ctx each_call = ParameterizedTest"
    by (simp add: rule_defs scenario_defs)
  have l: "at_index (arguments each_call) 1 = Some each_callback"
    by (simp add: at_index_def each_call_def)
  have f: "isFunction each_callback" and p: "params each_callback = [?n, ?d]"
    and s: "\<not> async each_callback"
    by (simp_all add: each_callback_def)
  have i: "isIdentifier ?d"
    by (simp add: isIdentifier_def)
  have fb: "getFirstToken (getSourceCode ?ctx) (body each_callback) = Some (tok ''{'' 35 36)"
    and lb: "getLastToken (getSourceCode ?ctx) (body each_callback) = Some (tok ''}'' 45 46)"
    and tb: "getTokenBefore (getSourceCode ?ctx) (N ?n) = Some (tok ''('' 25 26)"
    and ta: "getTokenAfter (getSourceCode ?ctx) (N ?d) = Some (tok '')'' 33 34)"
    by (simp_all add: store_defs each_tokens_def each_callback_def)
  have v: "tok_value (tok ''('' 25 26) = ''(''" "tok_value (tok '')'' 33 34) = '')''"
    by (simp_all add: tok_def)
  have o: "tokensInOrder (getSourceCode ?ctx)"
    by (simp add: context_of_def tokenStore_inOrder)
  have r: "fst (node_range ?n) \<le> snd (node_range ?n)" "snd (node_range ?n) \<le> fst (node_range ?d)"
    "fst (node_range ?d) \<le> snd (node_range ?d)"
    by simp_all
  show ?thesis
    using C1_each_rewrite_removes_all_parameters[OF c l f p i s fb lb tb v(1) ta v(2) o r] c l p
    by (simp add: removeRange_def tok_def)
qed








end
